theory Spec2Isabelle
  imports Complex_Main
begin

section \<open>Severity levels (states.h)\<close>

text \<open>
  The enumeration \<open>SensorStateLevel\<close> with the values its declaration gives the
  enumerators. \<open>INVALID_STATE\<close> is declared as \<open>INT32_MAX\<close>.
\<close>

datatype SensorStateLevel =
  TOO_LOW | DANGER_LOW | OK | DANGER_HIGH | TOO_HIGH | INVALID_STATE

fun enum_val :: "SensorStateLevel \<Rightarrow> int" where
  "enum_val TOO_LOW = 0"
| "enum_val DANGER_LOW = 1"
| "enum_val OK = 2"
| "enum_val DANGER_HIGH = 3"
| "enum_val TOO_HIGH = 4"
| "enum_val INVALID_STATE = 2147483647"

section \<open>Integer conversions of the target\<close>

text \<open>
  The width \<open>w\<close> of \<open>int\<close> and \<open>unsigned int\<close> is a property of the board the
  sketch is built for: 16 bits on the AVR boards, 32 bits on the ARM boards. It is a
  parameter of the model. \<open>to_int w\<close> is the conversion to \<open>int\<close> (two's complement,
  keeping the low \<open>w\<close> bits), \<open>to_unsigned w\<close> the conversion to \<open>unsigned int\<close>.
\<close>

definition to_int :: "nat \<Rightarrow> int \<Rightarrow> int" where
  "to_int w v = signed_take_bit (w - 1) v"

definition to_unsigned :: "nat \<Rightarrow> int \<Rightarrow> int" where
  "to_unsigned w v = v mod 2 ^ w"

section \<open>The board: analog inputs and digital outputs\<close>

text \<open>
  \<open>analog\<close> is what \<open>analogRead\<close> returns for each pin; \<open>writes\<close> is the trace of
  the \<open>digitalWrite\<close> calls made so far, oldest first (\<open>True\<close> is \<open>HIGH\<close>).
\<close>

record board =
  analog :: "nat \<Rightarrow> int"
  writes :: "(nat \<times> bool) list"

definition digitalWrite :: "nat \<Rightarrow> bool \<Rightarrow> board \<Rightarrow> board" where
  "digitalWrite p v hw = hw\<lparr>writes := writes hw @ [(p, v)]\<rparr>"

section \<open>Analog sensors (analog_sensors.h)\<close>

record AnalogSensor =
  PIN_NUMBER :: nat

definition read_raw :: "nat \<Rightarrow> board \<Rightarrow> AnalogSensor \<Rightarrow> int" where
  "read_raw w hw s = to_unsigned w (analog hw (PIN_NUMBER s))"

subsection \<open>Soil moisture\<close>

definition SM_THRESH_TOO_WET :: int where "SM_THRESH_TOO_WET = 350"
definition SM_THRESH_DANGEROUSLY_WET :: int where "SM_THRESH_DANGEROUSLY_WET = 450"
definition SM_THRESH_OK :: int where "SM_THRESH_OK = 550"
definition SM_THRESH_DANGEROUSLY_DRY :: int where "SM_THRESH_DANGEROUSLY_DRY = 650"
definition SM_THRESH_TOO_DRY :: int where "SM_THRESH_TOO_DRY = 1023"

definition SoilMoistureSensor_get_state :: "nat \<Rightarrow> board \<Rightarrow> AnalogSensor \<Rightarrow> SensorStateLevel" where
  "SoilMoistureSensor_get_state w hw s =
     (let value = read_raw w hw s in
      if value \<le> SM_THRESH_TOO_WET then TOO_HIGH
      else if value \<le> SM_THRESH_DANGEROUSLY_WET then DANGER_HIGH
      else if value \<le> SM_THRESH_OK then OK
      else if value \<le> SM_THRESH_DANGEROUSLY_DRY then DANGER_LOW
      else if value \<le> SM_THRESH_TOO_DRY then TOO_LOW
      else INVALID_STATE)"

subsection \<open>pH\<close>

text \<open>
  The pH ladder compares the mapped reading, a \<open>float\<close>, with \<open>float\<close> constants.
  A comparison of two finite floats is the comparison of the numbers they denote, so
  the ladder is modelled on \<open>real\<close>, its argument being the value
  \<open>read_mapped_float(0.0f, 14.0f)\<close> returned. The constants are the single-precision
  values of the literals \<open>5.8f\<close>, \<open>6.1f\<close>, \<open>7.0f\<close>, \<open>7.5f\<close> and \<open>14.0f\<close>.
\<close>

definition PH_TOO_LOW :: real where "PH_TOO_LOW = 6081741 / 1048576"
definition PH_DANGER_LOW :: real where "PH_DANGER_LOW = 12792627 / 2097152"
definition PH_OK :: real where "PH_OK = 7"
definition PH_DANGER_HIGH :: real where "PH_DANGER_HIGH = 15 / 2"
definition PH_TOO_HIGH :: real where "PH_TOO_HIGH = 14"

definition PHSensor_get_state :: "real \<Rightarrow> SensorStateLevel" where
  "PHSensor_get_state value =
     (if value \<le> PH_TOO_LOW then TOO_LOW
      else if value \<le> PH_DANGER_LOW then DANGER_LOW
      else if value \<le> PH_OK then OK
      else if value \<le> PH_DANGER_HIGH then DANGER_HIGH
      else if value \<le> PH_TOO_HIGH then TOO_HIGH
      else INVALID_STATE)"

subsection \<open>Water level\<close>

text \<open>
  \<open>get_state\<close> stores the reading in an \<open>int\<close> and compares it with an
  \<open>unsigned int\<close> constant: the comparison converts the \<open>int\<close> back to
  \<open>unsigned int\<close>.
\<close>

definition WL_THRESH_OK :: int where "WL_THRESH_OK = 1024"
definition WL_THRESH_DANGER_LOW :: int where "WL_THRESH_DANGER_LOW = 450"
definition WL_THRESH_DRY :: int where "WL_THRESH_DRY = 200"

definition WaterLevelSensor_get_state :: "nat \<Rightarrow> board \<Rightarrow> AnalogSensor \<Rightarrow> SensorStateLevel" where
  "WaterLevelSensor_get_state w hw s =
     (let val = to_int w (read_raw w hw s) in
      if to_unsigned w val \<le> WL_THRESH_DRY then TOO_LOW
      else if to_unsigned w val \<le> WL_THRESH_DANGER_LOW then DANGER_LOW
      else if to_unsigned w val \<le> WL_THRESH_OK then OK
      else INVALID_STATE)"

subsection \<open>Water detection\<close>

definition WD_THRESH_ON :: int where "WD_THRESH_ON = 1024"
definition WD_THRESH_OFF :: int where "WD_THRESH_OFF = 50"

definition WaterDetectionSensor_get_state :: "nat \<Rightarrow> board \<Rightarrow> AnalogSensor \<Rightarrow> SensorStateLevel" where
  "WaterDetectionSensor_get_state w hw s =
     (let val = to_int w (read_raw w hw s) in
      if to_unsigned w val \<le> WD_THRESH_OFF then OK
      else if to_unsigned w val \<le> WD_THRESH_ON then TOO_HIGH
      else INVALID_STATE)"

section \<open>Pump driver (pump_driver.h)\<close>

record PumpDriver =
  pin :: nat
  on :: bool

definition turn_on :: "PumpDriver \<Rightarrow> board \<Rightarrow> PumpDriver \<times> board" where
  "turn_on p hw = (p\<lparr>on := True\<rparr>, digitalWrite (pin p) True hw)"

definition turn_off :: "PumpDriver \<Rightarrow> board \<Rightarrow> PumpDriver \<times> board" where
  "turn_off p hw = (p\<lparr>on := False\<rparr>, digitalWrite (pin p) False hw)"

definition is_on :: "PumpDriver \<Rightarrow> bool" where
  "is_on p = on p"

section \<open>Action decider (action_decider.h)\<close>

record ActionDecider =
  sm :: AnalogSensor
  wl :: AnalogSensor
  wd :: AnalogSensor
  pd :: PumpDriver

text \<open>
  The conditions of the rule cascade of \<open>DecideAction\<close>, in the order of the source,
  over the four local variables \<open>sm_state\<close>, \<open>ph_state\<close>, \<open>wl_state\<close> and
  \<open>wd_state\<close>. The range checks of step 3 compare the levels after a cast to \<open>int\<close>.
\<close>

definition any_invalid :: "SensorStateLevel \<Rightarrow> SensorStateLevel \<Rightarrow> SensorStateLevel \<Rightarrow> SensorStateLevel \<Rightarrow> bool" where
  "any_invalid sm_state ph_state wl_state wd_state \<longleftrightarrow>
     sm_state = INVALID_STATE \<or> ph_state = INVALID_STATE \<or>
     wl_state = INVALID_STATE \<or> wd_state = INVALID_STATE"

definition tank_empty :: "SensorStateLevel \<Rightarrow> bool" where
  "tank_empty wl_state \<longleftrightarrow> wl_state = TOO_LOW"

definition ph_out_of_range :: "SensorStateLevel \<Rightarrow> bool" where
  "ph_out_of_range ph_state \<longleftrightarrow> ph_state = TOO_LOW \<or> ph_state = TOO_HIGH"

definition standard_case :: "nat \<Rightarrow> SensorStateLevel \<Rightarrow> SensorStateLevel \<Rightarrow> SensorStateLevel \<Rightarrow> bool" where
  "standard_case w sm_state wl_state wd_state \<longleftrightarrow>
     wd_state = OK \<and>
     (to_int w (enum_val wl_state) \<ge> to_int w (enum_val OK) \<and>
      to_int w (enum_val wl_state) \<le> to_int w (enum_val TOO_HIGH)) \<and>
     to_int w (enum_val sm_state) \<le> to_int w (enum_val DANGER_HIGH)"

definition special_case :: "SensorStateLevel \<Rightarrow> SensorStateLevel \<Rightarrow> bool" where
  "special_case sm_state wd_state \<longleftrightarrow>
     (wd_state = OK \<or> wd_state = TOO_HIGH) \<and> sm_state = TOO_LOW"

definition rule_cascade :: "nat \<Rightarrow> SensorStateLevel \<Rightarrow> SensorStateLevel \<Rightarrow> SensorStateLevel \<Rightarrow> SensorStateLevel \<Rightarrow> bool" where
  "rule_cascade w sm_state ph_state wl_state wd_state =
     (if any_invalid sm_state ph_state wl_state wd_state then False
      else if tank_empty wl_state then False
      else if ph_out_of_range ph_state then False
      else if standard_case w sm_state wl_state wd_state then True
      else if special_case sm_state wd_state then True
      else False)"

definition DecideAction :: "nat \<Rightarrow> ActionDecider \<Rightarrow> board \<Rightarrow> bool" where
  "DecideAction w ad hw =
     (let sm_state = SoilMoistureSensor_get_state w hw (sm ad);
          ph_state = OK;
          wl_state = WaterLevelSensor_get_state w hw (wl ad);
          wd_state = WaterDetectionSensor_get_state w hw (wd ad)
      in rule_cascade w sm_state ph_state wl_state wd_state)"

definition DecidePump :: "nat \<Rightarrow> ActionDecider \<Rightarrow> board \<Rightarrow> bool \<times> ActionDecider \<times> board" where
  "DecidePump w ad hw =
     (if DecideAction w ad hw
      then (let (p, hw') = turn_on (pd ad) hw in (True, ad\<lparr>pd := p\<rparr>, hw'))
      else (let (p, hw') = turn_off (pd ad) hw in (False, ad\<lparr>pd := p\<rparr>, hw')))"

section \<open>Facts about the integer conversions\<close>

lemma to_int_small:
  assumes "16 \<le> w" and "- 32768 \<le> v" and "v < 32768"
  shows "to_int w v = v"
proof -
  have "(2::int) ^ 15 \<le> 2 ^ (w - 1)"
    using assms(1) by (intro power_increasing) auto
  then have "- (2 ^ (w - 1)) \<le> v \<and> v < 2 ^ (w - 1)"
    using assms(2,3) by simp
  then show ?thesis
    by (simp add: to_int_def signed_take_bit_int_eq_self_iff)
qed

lemma to_unsigned_small:
  assumes "16 \<le> w" and "0 \<le> v" and "v < 65536"
  shows "to_unsigned w v = v"
proof -
  have "(2::int) ^ 16 \<le> 2 ^ w"
    using assms(1) by (intro power_increasing) auto
  then have "v < 2 ^ w"
    using assms(3) by simp
  then show ?thesis
    using assms(2) by (simp add: to_unsigned_def)
qed

lemma to_unsigned_to_int:
  assumes "0 < w"
  shows "to_unsigned w (to_int w v) = to_unsigned w v"
proof -
  have "take_bit w (signed_take_bit (w - 1) v) = take_bit w v"
    using assms by (intro take_bit_signed_take_bit) simp
  then show ?thesis
    by (simp add: to_unsigned_def to_int_def take_bit_eq_mod)
qed

lemma to_int_enum:
  assumes "16 \<le> w" and "s \<noteq> INVALID_STATE"
  shows "to_int w (enum_val s) = enum_val s"
  using assms by (cases s) (simp_all add: to_int_small)

lemma to_int_INT32_MAX_wide:
  assumes "32 \<le> w"
  shows "to_int w 2147483647 = 2147483647"
proof -
  have "(2::int) ^ 31 \<le> 2 ^ (w - 1)"
    using assms by (intro power_increasing) auto
  then show ?thesis
    by (simp add: to_int_def signed_take_bit_int_eq_self_iff)
qed

lemma to_int_INT32_MAX_narrow:
  assumes "0 < w" and "w < 32"
  shows "to_int w 2147483647 = - 1"
proof -
  have "(2::int) ^ Suc (w - 1) dvd 2 ^ 31"
    using assms by (intro le_imp_power_dvd) simp
  then have "(2::int) ^ Suc (w - 1) dvd 2147483647 - (- 1)"
    by simp
  then have "(2147483647::int) mod 2 ^ Suc (w - 1) = (- 1) mod 2 ^ Suc (w - 1)"
    by (simp only: mod_eq_dvd_iff)
  then have "take_bit (Suc (w - 1)) (2147483647::int) = take_bit (Suc (w - 1)) (- 1)"
    by (simp only: take_bit_eq_mod)
  then have "signed_take_bit (w - 1) (2147483647::int) = signed_take_bit (w - 1) (- 1)"
    by (simp only: signed_take_bit_eq_iff_take_bit_eq)
  then show ?thesis
    by (simp add: to_int_def)
qed

lemma raw_via_int:
  assumes "16 \<le> w"
  shows "to_unsigned w (to_int w (read_raw w hw s)) = read_raw w hw s"
proof -
  have "to_unsigned w (to_int w (read_raw w hw s)) = to_unsigned w (read_raw w hw s)"
    using assms by (intro to_unsigned_to_int) simp
  then show ?thesis
    by (simp add: read_raw_def to_unsigned_def)
qed

lemma read_raw_in_range:
  assumes "16 \<le> w" and "0 \<le> analog hw (PIN_NUMBER s)" and "analog hw (PIN_NUMBER s) < 65536"
  shows "read_raw w hw s = analog hw (PIN_NUMBER s)"
  using assms by (simp add: read_raw_def to_unsigned_small)

lemmas sm_thresholds = SM_THRESH_TOO_WET_def SM_THRESH_DANGEROUSLY_WET_def SM_THRESH_OK_def
  SM_THRESH_DANGEROUSLY_DRY_def SM_THRESH_TOO_DRY_def
lemmas ph_thresholds = PH_TOO_LOW_def PH_DANGER_LOW_def PH_OK_def PH_DANGER_HIGH_def
  PH_TOO_HIGH_def
lemmas wl_thresholds = WL_THRESH_OK_def WL_THRESH_DANGER_LOW_def WL_THRESH_DRY_def
lemmas wd_thresholds = WD_THRESH_ON_def WD_THRESH_OFF_def

section \<open>The rule cascade\<close>

text \<open>
  C1. Whenever at least one of the four severity inputs of the rule cascade of
  \<open>DecideAction\<close> is \<open>INVALID_STATE\<close>, the cascade returns false; in particular for
  soil moisture \<open>OK\<close>, pH \<open>INVALID_STATE\<close>, water level \<open>OK\<close> and water detection
  \<open>OK\<close>. Hence \<open>DecideAction\<close> returns false whenever one of its three sensors
  reports \<open>INVALID_STATE\<close>.
\<close>

theorem invalid_state_veto:
  "(sm_state = INVALID_STATE \<or> ph_state = INVALID_STATE \<or>
    wl_state = INVALID_STATE \<or> wd_state = INVALID_STATE
      \<longrightarrow> rule_cascade w sm_state ph_state wl_state wd_state = False)
   \<and> rule_cascade w OK INVALID_STATE OK OK = False
   \<and> (SoilMoistureSensor_get_state w hw (sm ad) = INVALID_STATE \<or>
      WaterLevelSensor_get_state w hw (wl ad) = INVALID_STATE \<or>
      WaterDetectionSensor_get_state w hw (wd ad) = INVALID_STATE
      \<longrightarrow> DecideAction w ad hw = False)"
  by (simp add: DecideAction_def rule_cascade_def any_invalid_def)

theorem invalid_state_veto_witness:
  "(OK = INVALID_STATE \<or> OK = INVALID_STATE \<or> INVALID_STATE = INVALID_STATE \<or> OK = INVALID_STATE)
   \<and> rule_cascade 16 OK OK INVALID_STATE OK = False
   \<and> SoilMoistureSensor_get_state 16 \<lparr>analog = (\<lambda>p. 2000), writes = []\<rparr> \<lparr>PIN_NUMBER = 15\<rparr>
       = INVALID_STATE
   \<and> DecideAction 16
       \<lparr>sm = \<lparr>PIN_NUMBER = 15\<rparr>, wl = \<lparr>PIN_NUMBER = 17\<rparr>, wd = \<lparr>PIN_NUMBER = 20\<rparr>,
        pd = \<lparr>pin = 2, on = False\<rparr>\<rparr>
       \<lparr>analog = (\<lambda>p. 2000), writes = []\<rparr> = False"
proof -
  have inv: "SoilMoistureSensor_get_state 16 \<lparr>analog = (\<lambda>p. 2000), writes = []\<rparr>
      \<lparr>PIN_NUMBER = 15\<rparr> = INVALID_STATE"
    by (simp add: SoilMoistureSensor_get_state_def read_raw_def to_unsigned_def sm_thresholds)
  from inv invalid_state_veto [of OK OK INVALID_STATE OK 16
      "\<lparr>analog = (\<lambda>p. 2000), writes = []\<rparr>"
      "\<lparr>sm = \<lparr>PIN_NUMBER = 15\<rparr>, wl = \<lparr>PIN_NUMBER = 17\<rparr>, wd = \<lparr>PIN_NUMBER = 20\<rparr>,
        pd = \<lparr>pin = 2, on = False\<rparr>\<rparr>"]
  show ?thesis
    by simp
qed

text \<open>
  C2. With an \<open>int\<close> of at least 16 bits: when no severity is \<open>INVALID_STATE\<close>, the
  water level is not \<open>TOO_LOW\<close>, the pH is neither \<open>TOO_LOW\<close> nor \<open>TOO_HIGH\<close>,
  the water detection is \<open>OK\<close>, the water level lies in the declared range from \<open>OK\<close>
  to \<open>TOO_HIGH\<close> and the soil moisture in the declared range from \<open>TOO_LOW\<close> to
  \<open>DANGER_HIGH\<close>, the cascade returns true; in particular for soil moisture
  \<open>DANGER_HIGH\<close>, pH \<open>OK\<close>, water level \<open>TOO_HIGH\<close> and water detection \<open>OK\<close>.
\<close>

theorem standard_run:
  assumes "16 \<le> w"
  shows "(sm_state \<noteq> INVALID_STATE \<and> ph_state \<noteq> INVALID_STATE \<and>
     wl_state \<noteq> INVALID_STATE \<and> wd_state \<noteq> INVALID_STATE \<and>
     wl_state \<noteq> TOO_LOW \<and> ph_state \<noteq> TOO_LOW \<and> ph_state \<noteq> TOO_HIGH \<and>
     wd_state = OK \<and>
     enum_val OK \<le> enum_val wl_state \<and> enum_val wl_state \<le> enum_val TOO_HIGH \<and>
     enum_val TOO_LOW \<le> enum_val sm_state \<and> enum_val sm_state \<le> enum_val DANGER_HIGH
       \<longrightarrow> rule_cascade w sm_state ph_state wl_state wd_state = True)
   \<and> rule_cascade w DANGER_HIGH OK TOO_HIGH OK = True"
  using assms
  by (simp add: rule_cascade_def any_invalid_def tank_empty_def ph_out_of_range_def
      standard_case_def to_int_enum to_int_small)

theorem standard_run_witness:
  "(16::nat) \<le> 16
   \<and> enum_val OK \<le> enum_val DANGER_HIGH \<and> enum_val DANGER_HIGH \<le> enum_val TOO_HIGH
   \<and> enum_val TOO_LOW \<le> enum_val DANGER_LOW \<and> enum_val DANGER_LOW \<le> enum_val DANGER_HIGH
   \<and> rule_cascade 16 DANGER_LOW DANGER_HIGH DANGER_HIGH OK = True
   \<and> rule_cascade 16 DANGER_HIGH OK TOO_HIGH OK = True"
  using standard_run [of 16 DANGER_LOW DANGER_HIGH DANGER_HIGH OK] by simp

text \<open>
  C3. When no severity is \<open>INVALID_STATE\<close>, the water level is not \<open>TOO_LOW\<close>, the pH is
  neither \<open>TOO_LOW\<close> nor \<open>TOO_HIGH\<close>, the water detection is \<open>OK\<close> or \<open>TOO_HIGH\<close>
  and the soil moisture is exactly \<open>TOO_LOW\<close>, the cascade returns true; in particular
  for soil moisture \<open>TOO_LOW\<close>, water detection \<open>TOO_HIGH\<close>, water level \<open>OK\<close> and pH
  \<open>OK\<close>.
\<close>

theorem bone_dry_override:
  "(sm_state \<noteq> INVALID_STATE \<and> ph_state \<noteq> INVALID_STATE \<and>
     wl_state \<noteq> INVALID_STATE \<and> wd_state \<noteq> INVALID_STATE \<and>
     wl_state \<noteq> TOO_LOW \<and> ph_state \<noteq> TOO_LOW \<and> ph_state \<noteq> TOO_HIGH \<and>
     (wd_state = OK \<or> wd_state = TOO_HIGH) \<and> sm_state = TOO_LOW
       \<longrightarrow> rule_cascade w sm_state ph_state wl_state wd_state = True)
   \<and> rule_cascade w TOO_LOW OK OK TOO_HIGH = True"
  by (simp add: rule_cascade_def any_invalid_def tank_empty_def ph_out_of_range_def
      special_case_def)

theorem bone_dry_override_witness:
  "(TOO_HIGH = OK \<or> TOO_HIGH = TOO_HIGH)
   \<and> rule_cascade 16 TOO_LOW DANGER_LOW DANGER_LOW TOO_HIGH = True"
  using bone_dry_override [of TOO_LOW DANGER_LOW DANGER_LOW TOO_HIGH 16] by simp

section \<open>The order of INVALID_STATE\<close>

text \<open>
  C4, as claimed, fails: the program compares severity levels as integers, after a cast
  to \<open>int\<close>, and \<open>INVALID_STATE\<close> is \<open>INT32_MAX\<close>. With a 32-bit \<open>int\<close> it is greater
  than \<open>TOO_HIGH\<close>; with a 16-bit \<open>int\<close> the cast leaves \<open>-1\<close>, less than \<open>TOO_LOW\<close>.
\<close>

theorem invalid_state_is_ordered:
  "to_int 32 (enum_val TOO_HIGH) < to_int 32 (enum_val INVALID_STATE)
   \<and> to_int 16 (enum_val INVALID_STATE) < to_int 16 (enum_val TOO_LOW)"
  by (simp add: to_int_def)

text \<open>
  C4, amended. Under the integer comparison the program uses, \<open>INVALID_STATE\<close> is
  ordered against each of the five ordinal levels \<open>L\<close>: greater than \<open>L\<close> when \<open>int\<close> has
  32 bits or more, less than \<open>L\<close> when \<open>int\<close> has 16 to 31 bits. It is kept out of the
  range checks of the cascade by the identity test of step 1 alone: when that test
  does not fire, neither the soil moisture nor the water level is \<open>INVALID_STATE\<close>.
\<close>

theorem invalid_state_ordering:
  "(32 \<le> w \<and> L \<noteq> INVALID_STATE
      \<longrightarrow> to_int w (enum_val L) < to_int w (enum_val INVALID_STATE))
   \<and> (16 \<le> w \<and> w < 32 \<and> L \<noteq> INVALID_STATE
      \<longrightarrow> to_int w (enum_val INVALID_STATE) < to_int w (enum_val L))
   \<and> (\<not> any_invalid sm_state ph_state wl_state wd_state
      \<longrightarrow> sm_state \<noteq> INVALID_STATE \<and> wl_state \<noteq> INVALID_STATE)"
proof (intro conjI impI)
  assume a: "32 \<le> w \<and> L \<noteq> INVALID_STATE"
  then have "to_int w (enum_val L) = enum_val L"
    by (simp add: to_int_enum)
  moreover have "enum_val L < 2147483647"
    using a by (cases L) simp_all
  ultimately show "to_int w (enum_val L) < to_int w (enum_val INVALID_STATE)"
    using a by (simp add: to_int_INT32_MAX_wide)
next
  assume a: "16 \<le> w \<and> w < 32 \<and> L \<noteq> INVALID_STATE"
  then have "to_int w (enum_val L) = enum_val L"
    by (simp add: to_int_enum)
  moreover have "- 1 < enum_val L"
    by (cases L) simp_all
  ultimately show "to_int w (enum_val INVALID_STATE) < to_int w (enum_val L)"
    using a by (simp add: to_int_INT32_MAX_narrow)
next
  assume "\<not> any_invalid sm_state ph_state wl_state wd_state"
  then show "sm_state \<noteq> INVALID_STATE" by (simp add: any_invalid_def)
next
  assume "\<not> any_invalid sm_state ph_state wl_state wd_state"
  then show "wl_state \<noteq> INVALID_STATE" by (simp add: any_invalid_def)
qed

theorem invalid_state_ordering_witness:
  "(32::nat) \<le> 32 \<and> OK \<noteq> INVALID_STATE
   \<and> to_int 32 (enum_val OK) < to_int 32 (enum_val INVALID_STATE)
   \<and> (16::nat) \<le> 16 \<and> (16::nat) < 32
   \<and> to_int 16 (enum_val INVALID_STATE) < to_int 16 (enum_val OK)
   \<and> \<not> any_invalid OK OK OK OK"
  using invalid_state_ordering [of 32 OK OK OK OK OK]
    invalid_state_ordering [of 16 OK OK OK OK OK]
  by (simp add: any_invalid_def)

section \<open>The classifiers\<close>

lemma sm_ends:
  "(read_raw w hw s \<le> SM_THRESH_TOO_WET \<longrightarrow> SoilMoistureSensor_get_state w hw s = TOO_HIGH)
   \<and> (SM_THRESH_TOO_DRY < read_raw w hw s \<longrightarrow> SoilMoistureSensor_get_state w hw s = INVALID_STATE)"
  by (simp add: SoilMoistureSensor_get_state_def Let_def sm_thresholds)

lemma ph_ends:
  "(v \<le> PH_TOO_LOW \<longrightarrow> PHSensor_get_state v = TOO_LOW)
   \<and> (PH_TOO_HIGH < v \<longrightarrow> PHSensor_get_state v = INVALID_STATE)"
  by (simp add: PHSensor_get_state_def ph_thresholds)

lemma wl_ends:
  assumes "16 \<le> w"
  shows "(read_raw w hw s \<le> WL_THRESH_DRY \<longrightarrow> WaterLevelSensor_get_state w hw s = TOO_LOW)
   \<and> (WL_THRESH_OK < read_raw w hw s \<longrightarrow> WaterLevelSensor_get_state w hw s = INVALID_STATE)"
  using assms by (simp add: WaterLevelSensor_get_state_def Let_def raw_via_int wl_thresholds)

lemma wd_ends:
  assumes "16 \<le> w"
  shows "(read_raw w hw s \<le> WD_THRESH_OFF \<longrightarrow> WaterDetectionSensor_get_state w hw s = OK)
   \<and> (WD_THRESH_ON < read_raw w hw s \<longrightarrow> WaterDetectionSensor_get_state w hw s = INVALID_STATE)"
  using assms by (simp add: WaterDetectionSensor_get_state_def Let_def raw_via_int wd_thresholds)

lemma sm_examples:
  assumes "16 \<le> w"
  shows "(analog hw (PIN_NUMBER s) = 0 \<longrightarrow> SoilMoistureSensor_get_state w hw s = TOO_HIGH)
   \<and> (analog hw (PIN_NUMBER s) = 1023 \<longrightarrow> SoilMoistureSensor_get_state w hw s = TOO_LOW)
   \<and> (analog hw (PIN_NUMBER s) = 2000 \<longrightarrow> SoilMoistureSensor_get_state w hw s = INVALID_STATE)"
  using assms
  by (simp add: SoilMoistureSensor_get_state_def Let_def read_raw_in_range sm_thresholds)

text \<open>
  C5. With an \<open>int\<close> of at least 16 bits, each classifier returns the first level of
  its ladder for every reading at or below its lowest threshold and \<open>INVALID_STATE\<close> for
  every reading above its highest threshold (for the pH ladder the reading is the
  mapped value). For soil moisture, whose scale is inverted, the reading 0 gives
  \<open>TOO_HIGH\<close>, 1023 gives \<open>TOO_LOW\<close> and 2000 gives \<open>INVALID_STATE\<close>.
\<close>

theorem ladder_ends:
  assumes "16 \<le> w"
  shows "(read_raw w hw s \<le> SM_THRESH_TOO_WET \<longrightarrow> SoilMoistureSensor_get_state w hw s = TOO_HIGH)
   \<and> (SM_THRESH_TOO_DRY < read_raw w hw s \<longrightarrow> SoilMoistureSensor_get_state w hw s = INVALID_STATE)
   \<and> (v \<le> PH_TOO_LOW \<longrightarrow> PHSensor_get_state v = TOO_LOW)
   \<and> (PH_TOO_HIGH < v \<longrightarrow> PHSensor_get_state v = INVALID_STATE)
   \<and> (read_raw w hw s \<le> WL_THRESH_DRY \<longrightarrow> WaterLevelSensor_get_state w hw s = TOO_LOW)
   \<and> (WL_THRESH_OK < read_raw w hw s \<longrightarrow> WaterLevelSensor_get_state w hw s = INVALID_STATE)
   \<and> (read_raw w hw s \<le> WD_THRESH_OFF \<longrightarrow> WaterDetectionSensor_get_state w hw s = OK)
   \<and> (WD_THRESH_ON < read_raw w hw s \<longrightarrow> WaterDetectionSensor_get_state w hw s = INVALID_STATE)
   \<and> (analog hw (PIN_NUMBER s) = 0 \<longrightarrow> SoilMoistureSensor_get_state w hw s = TOO_HIGH)
   \<and> (analog hw (PIN_NUMBER s) = 1023 \<longrightarrow> SoilMoistureSensor_get_state w hw s = TOO_LOW)
   \<and> (analog hw (PIN_NUMBER s) = 2000 \<longrightarrow> SoilMoistureSensor_get_state w hw s = INVALID_STATE)"
  using sm_ends [of w hw s] ph_ends [of v] wl_ends [OF assms, of hw s] wd_ends [OF assms, of hw s]
    sm_examples [OF assms, of hw s]
  by blast

theorem ladder_ends_witness:
  "SoilMoistureSensor_get_state 16 \<lparr>analog = (\<lambda>p. 0), writes = []\<rparr> \<lparr>PIN_NUMBER = 15\<rparr> = TOO_HIGH
   \<and> WaterLevelSensor_get_state 16 \<lparr>analog = (\<lambda>p. 0), writes = []\<rparr> \<lparr>PIN_NUMBER = 15\<rparr> = TOO_LOW
   \<and> WaterDetectionSensor_get_state 16 \<lparr>analog = (\<lambda>p. 0), writes = []\<rparr> \<lparr>PIN_NUMBER = 15\<rparr> = OK
   \<and> PHSensor_get_state 5 = TOO_LOW
   \<and> SoilMoistureSensor_get_state 16 \<lparr>analog = (\<lambda>p. 2000), writes = []\<rparr> \<lparr>PIN_NUMBER = 15\<rparr> = INVALID_STATE
   \<and> WaterLevelSensor_get_state 16 \<lparr>analog = (\<lambda>p. 2000), writes = []\<rparr> \<lparr>PIN_NUMBER = 15\<rparr> = INVALID_STATE
   \<and> WaterDetectionSensor_get_state 16 \<lparr>analog = (\<lambda>p. 2000), writes = []\<rparr> \<lparr>PIN_NUMBER = 15\<rparr> = INVALID_STATE
   \<and> PHSensor_get_state 15 = INVALID_STATE
   \<and> SoilMoistureSensor_get_state 16 \<lparr>analog = (\<lambda>p. 1023), writes = []\<rparr> \<lparr>PIN_NUMBER = 15\<rparr> = TOO_LOW"
  using ladder_ends [of 16 "\<lparr>analog = (\<lambda>p. 0), writes = []\<rparr>" "\<lparr>PIN_NUMBER = 15\<rparr>" 5]
    ladder_ends [of 16 "\<lparr>analog = (\<lambda>p. 2000), writes = []\<rparr>" "\<lparr>PIN_NUMBER = 15\<rparr>" 15]
    ladder_ends [of 16 "\<lparr>analog = (\<lambda>p. 1023), writes = []\<rparr>" "\<lparr>PIN_NUMBER = 15\<rparr>" 7]
  by (simp add: read_raw_def to_unsigned_def sm_thresholds ph_thresholds wl_thresholds wd_thresholds)

text \<open>
  C6. For every reading the water-level classifier returns \<open>TOO_LOW\<close>, \<open>DANGER_LOW\<close>,
  \<open>OK\<close> or \<open>INVALID_STATE\<close>, and the water-detection classifier returns \<open>OK\<close>,
  \<open>TOO_HIGH\<close> or \<open>INVALID_STATE\<close>.
\<close>

theorem limited_ranges:
  "WaterLevelSensor_get_state w hw s \<in> {TOO_LOW, DANGER_LOW, OK, INVALID_STATE}
   \<and> WaterDetectionSensor_get_state w hw' s' \<in> {OK, TOO_HIGH, INVALID_STATE}"
  by (simp add: WaterLevelSensor_get_state_def WaterDetectionSensor_get_state_def Let_def)

section \<open>The pump\<close>

text \<open>
  C7. \<open>DecidePump\<close> returns the decision of \<open>DecideAction\<close>, having called \<open>turn_on\<close>
  when it is true and \<open>turn_off\<close> when it is false. Afterwards \<open>is_on\<close> equals the
  returned value, and nothing has changed but the pump: its \<open>on\<close> flag, and one write
  of the decision to the pump's pin. The sensors, the pin numbers, the analog inputs
  and the earlier writes are as before.
\<close>

theorem DecidePump_effect:
  assumes "DecidePump w ad hw = (r, ad', hw')"
  shows "r = DecideAction w ad hw
     \<and> (pd ad', hw') = (if r then turn_on (pd ad) hw else turn_off (pd ad) hw)
     \<and> is_on (pd ad') = r
     \<and> ad' = ad\<lparr>pd := (pd ad)\<lparr>on := r\<rparr>\<rparr>
     \<and> hw' = hw\<lparr>writes := writes hw @ [(pin (pd ad), r)]\<rparr>"
proof (cases "DecideAction w ad hw")
  case True
  with assms show ?thesis
    by (auto simp add: DecidePump_def turn_on_def is_on_def digitalWrite_def)
next
  case False
  with assms show ?thesis
    by (auto simp add: DecidePump_def turn_off_def is_on_def digitalWrite_def)
qed

theorem DecidePump_effect_witness:
  "DecidePump 16
      \<lparr>sm = \<lparr>PIN_NUMBER = 15\<rparr>, wl = \<lparr>PIN_NUMBER = 17\<rparr>, wd = \<lparr>PIN_NUMBER = 20\<rparr>,
       pd = \<lparr>pin = 2, on = False\<rparr>\<rparr>
      \<lparr>analog = (\<lambda>p. if p = 15 then 700 else if p = 17 then 800 else 10), writes = []\<rparr>
    = (True,
       \<lparr>sm = \<lparr>PIN_NUMBER = 15\<rparr>, wl = \<lparr>PIN_NUMBER = 17\<rparr>, wd = \<lparr>PIN_NUMBER = 20\<rparr>,
        pd = \<lparr>pin = 2, on = True\<rparr>\<rparr>,
       \<lparr>analog = (\<lambda>p. if p = 15 then 700 else if p = 17 then 800 else 10),
        writes = [(2, True)]\<rparr>)
   \<and> is_on \<lparr>pin = 2, on = True\<rparr> = True"
proof -
  let ?ad = "\<lparr>sm = \<lparr>PIN_NUMBER = 15\<rparr>, wl = \<lparr>PIN_NUMBER = 17\<rparr>, wd = \<lparr>PIN_NUMBER = 20\<rparr>,
       pd = \<lparr>pin = 2, on = False\<rparr>\<rparr>"
  let ?hw = "\<lparr>analog = (\<lambda>p::nat. if p = 15 then 700 else if p = 17 then 800 else (10::int)),
       writes = []\<rparr>"
  let ?ad' = "\<lparr>sm = \<lparr>PIN_NUMBER = 15\<rparr>, wl = \<lparr>PIN_NUMBER = 17\<rparr>, wd = \<lparr>PIN_NUMBER = 20\<rparr>,
       pd = \<lparr>pin = 2, on = True\<rparr>\<rparr>"
  let ?hw' = "\<lparr>analog = (\<lambda>p::nat. if p = 15 then 700 else if p = 17 then 800 else (10::int)),
       writes = [(2, True)]\<rparr>"
  have run: "DecidePump 16 ?ad ?hw = (True, ?ad', ?hw')"
    by (simp add: DecidePump_def DecideAction_def rule_cascade_def any_invalid_def
        tank_empty_def ph_out_of_range_def standard_case_def
        SoilMoistureSensor_get_state_def WaterLevelSensor_get_state_def
        WaterDetectionSensor_get_state_def read_raw_def to_unsigned_def to_int_def
        sm_thresholds wl_thresholds wd_thresholds turn_on_def digitalWrite_def)
  from DecidePump_effect [OF run] run show ?thesis
    by simp
qed

text \<open>
  C8. Two consecutive \<open>turn_on\<close> calls from any starting state leave \<open>is_on\<close> true.
  \<open>turn_on\<close> has no failing path. The second call writes \<open>HIGH\<close> to the pump's pin
  once more and leaves the driver as the first call left it.
\<close>

theorem turn_on_twice:
  assumes "turn_on p hw = (p1, hw1)" and "turn_on p1 hw1 = (p2, hw2)"
  shows "is_on p1 \<and> is_on p2 \<and> p2 = p1
     \<and> writes hw1 = writes hw @ [(pin p, True)]
     \<and> writes hw2 = writes hw1 @ [(pin p, True)]
     \<and> analog hw2 = analog hw"
  using assms by (auto simp add: turn_on_def is_on_def digitalWrite_def)

theorem turn_on_twice_witness:
  "turn_on \<lparr>pin = 2, on = False\<rparr> \<lparr>analog = (\<lambda>p. 0), writes = []\<rparr>
     = (\<lparr>pin = 2, on = True\<rparr>, \<lparr>analog = (\<lambda>p. 0), writes = [(2, True)]\<rparr>)
   \<and> turn_on \<lparr>pin = 2, on = True\<rparr> \<lparr>analog = (\<lambda>p. 0), writes = [(2, True)]\<rparr>
     = (\<lparr>pin = 2, on = True\<rparr>, \<lparr>analog = (\<lambda>p. 0), writes = [(2, True), (2, True)]\<rparr>)
   \<and> is_on \<lparr>pin = 2, on = True\<rparr>"
proof -
  have one: "turn_on \<lparr>pin = 2, on = False\<rparr> \<lparr>analog = (\<lambda>p. 0), writes = []\<rparr>
     = (\<lparr>pin = 2, on = True\<rparr>, \<lparr>analog = (\<lambda>p. 0), writes = [(2, True)]\<rparr>)"
    by (simp add: turn_on_def digitalWrite_def)
  have two: "turn_on \<lparr>pin = 2, on = True\<rparr> \<lparr>analog = (\<lambda>p. 0), writes = [(2, True)]\<rparr>
     = (\<lparr>pin = 2, on = True\<rparr>, \<lparr>analog = (\<lambda>p. 0), writes = [(2, True), (2, True)]\<rparr>)"
    by (simp add: turn_on_def digitalWrite_def)
  from turn_on_twice [OF one two] one two show ?thesis
    by simp
qed

section \<open>Readings in range\<close>

lemma sm_in_range:
  assumes "0 \<le> read_raw w hw s" and "read_raw w hw s \<le> 1023"
  shows "SoilMoistureSensor_get_state w hw s \<noteq> INVALID_STATE"
  using assms by (simp add: SoilMoistureSensor_get_state_def Let_def sm_thresholds)

lemma wl_in_range:
  assumes "16 \<le> w" and "0 \<le> read_raw w hw s" and "read_raw w hw s \<le> 1023"
  shows "WaterLevelSensor_get_state w hw s \<noteq> INVALID_STATE"
  using assms by (simp add: WaterLevelSensor_get_state_def Let_def raw_via_int wl_thresholds)

lemma wd_in_range:
  assumes "16 \<le> w" and "0 \<le> read_raw w hw s" and "read_raw w hw s \<le> 1023"
  shows "WaterDetectionSensor_get_state w hw s \<noteq> INVALID_STATE"
  using assms by (simp add: WaterDetectionSensor_get_state_def Let_def raw_via_int wd_thresholds)

text \<open>
  C9. With an \<open>int\<close> of at least 16 bits, a reading between 0 and 1023 is classified
  as \<open>INVALID_STATE\<close> by none of the soil-moisture, water-level and water-detection
  classifiers, whose top thresholds are at least 1023. So when the three readings of
  \<open>DecideAction\<close> are in that range, the invalid-state test of step 1 does not fire.
\<close>

theorem in_range_never_invalid:
  assumes "16 \<le> w"
  shows "(0 \<le> read_raw w hw s \<and> read_raw w hw s \<le> 1023
      \<longrightarrow> SoilMoistureSensor_get_state w hw s \<noteq> INVALID_STATE
        \<and> WaterLevelSensor_get_state w hw s \<noteq> INVALID_STATE
        \<and> WaterDetectionSensor_get_state w hw s \<noteq> INVALID_STATE)
   \<and> 1023 \<le> SM_THRESH_TOO_DRY \<and> 1023 \<le> WL_THRESH_OK \<and> 1023 \<le> WD_THRESH_ON
   \<and> (0 \<le> read_raw w hw (sm ad) \<and> read_raw w hw (sm ad) \<le> 1023
      \<and> 0 \<le> read_raw w hw (wl ad) \<and> read_raw w hw (wl ad) \<le> 1023
      \<and> 0 \<le> read_raw w hw (wd ad) \<and> read_raw w hw (wd ad) \<le> 1023
      \<longrightarrow> \<not> any_invalid (SoilMoistureSensor_get_state w hw (sm ad)) OK
            (WaterLevelSensor_get_state w hw (wl ad))
            (WaterDetectionSensor_get_state w hw (wd ad)))"
proof (intro conjI impI)
  assume "0 \<le> read_raw w hw s \<and> read_raw w hw s \<le> 1023"
  then show "SoilMoistureSensor_get_state w hw s \<noteq> INVALID_STATE"
    by (simp add: sm_in_range)
next
  assume "0 \<le> read_raw w hw s \<and> read_raw w hw s \<le> 1023"
  then show "WaterLevelSensor_get_state w hw s \<noteq> INVALID_STATE"
    using assms by (simp add: wl_in_range)
next
  assume "0 \<le> read_raw w hw s \<and> read_raw w hw s \<le> 1023"
  then show "WaterDetectionSensor_get_state w hw s \<noteq> INVALID_STATE"
    using assms by (simp add: wd_in_range)
next
  show "1023 \<le> SM_THRESH_TOO_DRY" by (simp add: sm_thresholds)
next
  show "1023 \<le> WL_THRESH_OK" by (simp add: wl_thresholds)
next
  show "1023 \<le> WD_THRESH_ON" by (simp add: wd_thresholds)
next
  assume "0 \<le> read_raw w hw (sm ad) \<and> read_raw w hw (sm ad) \<le> 1023
      \<and> 0 \<le> read_raw w hw (wl ad) \<and> read_raw w hw (wl ad) \<le> 1023
      \<and> 0 \<le> read_raw w hw (wd ad) \<and> read_raw w hw (wd ad) \<le> 1023"
  then show "\<not> any_invalid (SoilMoistureSensor_get_state w hw (sm ad)) OK
            (WaterLevelSensor_get_state w hw (wl ad))
            (WaterDetectionSensor_get_state w hw (wd ad))"
    using assms by (simp add: any_invalid_def sm_in_range wl_in_range wd_in_range)
qed

theorem in_range_never_invalid_witness:
  "(16::nat) \<le> 16
   \<and> 0 \<le> read_raw 16 \<lparr>analog = (\<lambda>p. 1023), writes = []\<rparr> \<lparr>PIN_NUMBER = 15\<rparr>
   \<and> read_raw 16 \<lparr>analog = (\<lambda>p. 1023), writes = []\<rparr> \<lparr>PIN_NUMBER = 15\<rparr> \<le> 1023
   \<and> SoilMoistureSensor_get_state 16 \<lparr>analog = (\<lambda>p. 1023), writes = []\<rparr> \<lparr>PIN_NUMBER = 15\<rparr>
       \<noteq> INVALID_STATE
   \<and> WaterLevelSensor_get_state 16 \<lparr>analog = (\<lambda>p. 1023), writes = []\<rparr> \<lparr>PIN_NUMBER = 15\<rparr>
       \<noteq> INVALID_STATE
   \<and> WaterDetectionSensor_get_state 16 \<lparr>analog = (\<lambda>p. 1023), writes = []\<rparr> \<lparr>PIN_NUMBER = 15\<rparr>
       \<noteq> INVALID_STATE
   \<and> \<not> any_invalid
       (SoilMoistureSensor_get_state 16 \<lparr>analog = (\<lambda>p. 1023), writes = []\<rparr> \<lparr>PIN_NUMBER = 15\<rparr>)
       OK
       (WaterLevelSensor_get_state 16 \<lparr>analog = (\<lambda>p. 1023), writes = []\<rparr> \<lparr>PIN_NUMBER = 17\<rparr>)
       (WaterDetectionSensor_get_state 16 \<lparr>analog = (\<lambda>p. 1023), writes = []\<rparr> \<lparr>PIN_NUMBER = 20\<rparr>)"
  using in_range_never_invalid [of 16 "\<lparr>analog = (\<lambda>p. 1023), writes = []\<rparr>"
      "\<lparr>PIN_NUMBER = 15\<rparr>"
      "\<lparr>sm = \<lparr>PIN_NUMBER = 15\<rparr>, wl = \<lparr>PIN_NUMBER = 17\<rparr>, wd = \<lparr>PIN_NUMBER = 20\<rparr>,
        pd = \<lparr>pin = 2, on = False\<rparr>\<rparr>"]
  by (simp add: read_raw_def to_unsigned_def)

section \<open>The pH reading\<close>

text \<open>
  C10. \<open>DecideAction\<close> reads no pH sensor: it runs the cascade with the pH severity
  fixed to \<open>OK\<close>, so the pH-out-of-range test of step 2 does not fire, and two boards
  that give the same readings on the soil-moisture, water-level and water-detection
  pins give the same decision, whatever any other pin reads.
\<close>

theorem DecideAction_ignores_ph:
  "DecideAction w ad hw =
       rule_cascade w (SoilMoistureSensor_get_state w hw (sm ad)) OK
         (WaterLevelSensor_get_state w hw (wl ad))
         (WaterDetectionSensor_get_state w hw (wd ad))
   \<and> \<not> ph_out_of_range OK
   \<and> (analog hw (PIN_NUMBER (sm ad)) = analog hw' (PIN_NUMBER (sm ad))
      \<and> analog hw (PIN_NUMBER (wl ad)) = analog hw' (PIN_NUMBER (wl ad))
      \<and> analog hw (PIN_NUMBER (wd ad)) = analog hw' (PIN_NUMBER (wd ad))
      \<longrightarrow> DecideAction w ad hw = DecideAction w ad hw')"
  by (simp add: DecideAction_def ph_out_of_range_def SoilMoistureSensor_get_state_def
      WaterLevelSensor_get_state_def WaterDetectionSensor_get_state_def read_raw_def)

theorem DecideAction_ignores_ph_witness:
  "DecideAction 16
      \<lparr>sm = \<lparr>PIN_NUMBER = 15\<rparr>, wl = \<lparr>PIN_NUMBER = 17\<rparr>, wd = \<lparr>PIN_NUMBER = 20\<rparr>,
       pd = \<lparr>pin = 2, on = False\<rparr>\<rparr>
      \<lparr>analog = (\<lambda>p. if p = 16 then 0 else 600), writes = []\<rparr>
   = DecideAction 16
      \<lparr>sm = \<lparr>PIN_NUMBER = 15\<rparr>, wl = \<lparr>PIN_NUMBER = 17\<rparr>, wd = \<lparr>PIN_NUMBER = 20\<rparr>,
       pd = \<lparr>pin = 2, on = False\<rparr>\<rparr>
      \<lparr>analog = (\<lambda>p. if p = 16 then 1023 else 600), writes = []\<rparr>"
  using DecideAction_ignores_ph [of 16
      "\<lparr>sm = \<lparr>PIN_NUMBER = 15\<rparr>, wl = \<lparr>PIN_NUMBER = 17\<rparr>, wd = \<lparr>PIN_NUMBER = 20\<rparr>,
        pd = \<lparr>pin = 2, on = False\<rparr>\<rparr>"
      "\<lparr>analog = (\<lambda>p. if p = 16 then 0 else 600), writes = []\<rparr>"
      "\<lparr>analog = (\<lambda>p. if p = 16 then 1023 else 600), writes = []\<rparr>",
      THEN conjunct2, THEN conjunct2]
  by simp

end
